theory Spec2Isabelle
  imports Complex_Main
begin

section \<open>JavaScript values used by the form and the API client\<close>

text \<open>
  A JavaScript number is modelled by its value: not-a-number, a finite value, or one of
  the two infinities. Finite values are exact rationals: the rounding of a decimal literal
  to the nearest binary64 value (with its overflow to an infinity and its underflow to
  zero) and the sign of zero are not represented. The properties
  below are stated on the converted number, whatever the conversion returns, and every
  concrete input evaluated below is a small decimal that binary64 holds exactly.
\<close>

datatype jsnum = NaN | Fin rat | PosInf | NegInf

definition isNaN :: "jsnum \<Rightarrow> bool" where
  "isNaN x = (x = NaN)"

text \<open>\<^verbatim>\<open>Number.isInteger\<close>: false for NaN and the infinities.\<close>

fun isInteger :: "jsnum \<Rightarrow> bool" where
  "isInteger (Fin q) = (of_int \<lfloor>q\<rfloor> = q)"
| "isInteger _ = False"

text \<open>The relational operator \<^verbatim>\<open><\<close> on numbers; any comparison with NaN is false.\<close>

fun js_less :: "jsnum \<Rightarrow> jsnum \<Rightarrow> bool" where
  "js_less NaN _ = False"
| "js_less _ NaN = False"
| "js_less (Fin a) (Fin b) = (a < b)"
| "js_less (Fin a) PosInf = True"
| "js_less (Fin a) NegInf = False"
| "js_less PosInf _ = False"
| "js_less NegInf (Fin b) = True"
| "js_less NegInf PosInf = True"
| "js_less NegInf NegInf = False"

text \<open>\<^verbatim>\<open>Math.floor\<close>: rounds a finite value towards minus infinity, keeps NaN and the infinities.\<close>

fun Math_floor :: "jsnum \<Rightarrow> jsnum" where
  "Math_floor (Fin q) = Fin (of_int \<lfloor>q\<rfloor>)"
| "Math_floor x = x"

text \<open>
  \<^verbatim>\<open>Math.trunc\<close>: rounds a finite value towards zero. The source does not call it; it
  states what truncating a number gives.
\<close>

fun Math_trunc :: "jsnum \<Rightarrow> jsnum" where
  "Math_trunc (Fin q) = Fin (if q < 0 then - of_int \<lfloor>- q\<rfloor> else of_int \<lfloor>q\<rfloor>)"
| "Math_trunc x = x"

fun js_negate :: "jsnum \<Rightarrow> jsnum" where
  "js_negate NaN = NaN"
| "js_negate (Fin q) = Fin (- q)"
| "js_negate PosInf = NegInf"
| "js_negate NegInf = PosInf"

subsection \<open>Strings: \<^verbatim>\<open>trim\<close> and the conversion \<^verbatim>\<open>Number(value)\<close>\<close>

text \<open>
  A string is a list of code units below 256. The white space of \<^verbatim>\<open>trim\<close> and of the
  numeric-string grammar is the same set: TAB, LF, VT, FF, CR, SP and NBSP in this range.
\<close>

definition isWhiteSpace :: "char \<Rightarrow> bool" where
  "isWhiteSpace c = (of_char c \<in> {9, 10, 11, 12, 13, 32, 160 :: nat})"

definition trim :: "string \<Rightarrow> string" where
  "trim s = rev (dropWhile isWhiteSpace (rev (dropWhile isWhiteSpace s)))"

definition hexVal :: "char \<Rightarrow> nat option" where
  "hexVal c =
     (let n = (of_char c :: nat)
      in if 48 \<le> n \<and> n \<le> 57 then Some (n - 48)
         else if 97 \<le> n \<and> n \<le> 102 then Some (n - 87)
         else if 65 \<le> n \<and> n \<le> 70 then Some (n - 55)
         else None)"

definition radixDigit :: "nat \<Rightarrow> char \<Rightarrow> nat option" where
  "radixDigit r c = (case hexVal c of None \<Rightarrow> None | Some d \<Rightarrow> if d < r then Some d else None)"

definition isDigit :: "char \<Rightarrow> bool" where
  "isDigit c = (radixDigit 10 c \<noteq> None)"

text \<open>The value of a digit string in radix \<open>r\<close>; \<open>None\<close> when a character is not a digit.\<close>

fun digitsValue :: "nat \<Rightarrow> nat \<Rightarrow> string \<Rightarrow> nat option" where
  "digitsValue r acc [] = Some acc"
| "digitsValue r acc (c # cs) =
     (case radixDigit r c of None \<Rightarrow> None | Some d \<Rightarrow> digitsValue r (r * acc + d) cs)"

text \<open>A non-empty run of digits in radix \<open>r\<close>.\<close>

definition Digits :: "nat \<Rightarrow> string \<Rightarrow> nat option" where
  "Digits r s = (if s = [] then None else digitsValue r 0 s)"

definition pow10 :: "int \<Rightarrow> rat" where
  "pow10 e = (if 0 \<le> e then 10 ^ nat e else 1 / 10 ^ nat (- e))"

text \<open>
  The optional exponent part that ends a decimal literal: nothing (exponent 0), or
  \<^verbatim>\<open>e\<close>/\<^verbatim>\<open>E\<close>, an optional sign and at least one digit.
\<close>

definition ExponentPart :: "string \<Rightarrow> int option" where
  "ExponentPart s =
     (case s of
        [] \<Rightarrow> Some 0
      | c # r \<Rightarrow>
          if c = CHR ''e'' \<or> c = CHR ''E'' then
            (case r of
               [] \<Rightarrow> None
             | d # r' \<Rightarrow>
                 if d = CHR ''+'' then map_option int (Digits 10 r')
                 else if d = CHR ''-'' then map_option (\<lambda>n. - int n) (Digits 10 r')
                 else map_option int (Digits 10 r))
          else None)"

text \<open>
  \<^verbatim>\<open>Infinity\<close>, or digits with an optional fraction and exponent, or a fraction that starts
  with the point. \<open>None\<close> when the string is not such a literal.
\<close>

definition StrUnsignedDecimalLiteral :: "string \<Rightarrow> jsnum option" where
  "StrUnsignedDecimalLiteral s =
     (if s = ''Infinity'' then Some PosInf
      else
        let ip = takeWhile isDigit s; r1 = dropWhile isDigit s
        in case r1 of
             [] \<Rightarrow> map_option (\<lambda>n. Fin (of_nat n)) (Digits 10 ip)
           | c # r2 \<Rightarrow>
               if c = CHR ''.'' then
                 (let fp = takeWhile isDigit r2; r3 = dropWhile isDigit r2
                  in if ip = [] \<and> fp = [] then None
                     else case (digitsValue 10 0 (ip @ fp), ExponentPart r3) of
                            (Some n, Some e) \<Rightarrow> Some (Fin (of_nat n * pow10 (e - int (length fp))))
                          | _ \<Rightarrow> None)
               else
                 (case (Digits 10 ip, ExponentPart r1) of
                    (Some n, Some e) \<Rightarrow> Some (Fin (of_nat n * pow10 e))
                  | _ \<Rightarrow> None))"

definition StrDecimalLiteral :: "string \<Rightarrow> jsnum option" where
  "StrDecimalLiteral s =
     (case s of
        [] \<Rightarrow> None
      | c # r \<Rightarrow>
          if c = CHR ''+'' then StrUnsignedDecimalLiteral r
          else if c = CHR ''-'' then map_option js_negate (StrUnsignedDecimalLiteral r)
          else StrUnsignedDecimalLiteral s)"

text \<open>An unsigned binary, octal or hexadecimal integer literal with its two-character prefix.\<close>

definition NonDecimalIntegerLiteral :: "string \<Rightarrow> nat option" where
  "NonDecimalIntegerLiteral s =
     (case s of
        z # x # ds \<Rightarrow>
          if z \<noteq> CHR ''0'' then None
          else if x = CHR ''x'' \<or> x = CHR ''X'' then Digits 16 ds
          else if x = CHR ''o'' \<or> x = CHR ''O'' then Digits 8 ds
          else if x = CHR ''b'' \<or> x = CHR ''B'' then Digits 2 ds
          else None
      | _ \<Rightarrow> None)"

text \<open>
  \<^verbatim>\<open>Number(value)\<close> on a string: white space around the literal is ignored, the empty
  and the all-blank string convert to 0, and a string that is no numeric literal converts
  to NaN.
\<close>

definition Number :: "string \<Rightarrow> jsnum" where
  "Number s =
     (let t = trim s
      in if t = [] then Fin 0
         else case NonDecimalIntegerLiteral t of
                Some n \<Rightarrow> Fin (of_nat n)
              | None \<Rightarrow> (case StrDecimalLiteral t of Some v \<Rightarrow> v | None \<Rightarrow> NaN))"


section \<open>The form controller (component \<^verbatim>\<open>HousePricePredictor\<close>)\<close>

text \<open>
  The interfaces \<^verbatim>\<open>HouseFormData\<close>, \<^verbatim>\<open>FormErrors\<close> and \<^verbatim>\<open>PredictionRequest\<close> have the same
  five properties and differ in the type of their values, so they are instances of one
  record. In \<^verbatim>\<open>FormErrors\<close> a property that is absent or \<^verbatim>\<open>undefined\<close> is \<open>None\<close>.
\<close>

record 'a house_fields =
  bedrooms :: 'a
  bathrooms :: 'a
  living_area :: 'a
  condition :: 'a
  schools :: 'a

type_synonym HouseFormData = "string house_fields"
type_synonym FormErrors = "string option house_fields"
type_synonym PredictionRequest = "jsnum house_fields"

record PredictionResponse =
  price :: jsnum
  currency :: string

text \<open>The property keys, for the places where the source reads or writes a property by name.\<close>

datatype field_name = Bedrooms | Bathrooms | Living_area | Condition | Schools

fun get_field :: "field_name \<Rightarrow> 'a house_fields \<Rightarrow> 'a" where
  "get_field Bedrooms r = bedrooms r"
| "get_field Bathrooms r = bathrooms r"
| "get_field Living_area r = living_area r"
| "get_field Condition r = condition r"
| "get_field Schools r = schools r"

fun set_field :: "field_name \<Rightarrow> 'a \<Rightarrow> 'a house_fields \<Rightarrow> 'a house_fields" where
  "set_field Bedrooms v r = r\<lparr>bedrooms := v\<rparr>"
| "set_field Bathrooms v r = r\<lparr>bathrooms := v\<rparr>"
| "set_field Living_area v r = r\<lparr>living_area := v\<rparr>"
| "set_field Condition v r = r\<lparr>condition := v\<rparr>"
| "set_field Schools v r = r\<lparr>schools := v\<rparr>"

text \<open>\<^verbatim>\<open>Object.entries\<close>: the properties in the order in which the object literal lists them.\<close>

definition Object_entries :: "'a house_fields \<Rightarrow> (field_name \<times> 'a) list" where
  "Object_entries r =
     [(Bedrooms, bedrooms r), (Bathrooms, bathrooms r), (Living_area, living_area r),
      (Condition, condition r), (Schools, schools r)]"

definition SAMPLE_DATA :: HouseFormData where
  "SAMPLE_DATA =
     \<lparr>bedrooms = ''3'', bathrooms = ''2'', living_area = ''1800'', condition = ''3'',
      schools = ''2''\<rparr>"

definition no_errors :: FormErrors where
  "no_errors =
     \<lparr>bedrooms = None, bathrooms = None, living_area = None, condition = None, schools = None\<rparr>"

text \<open>The component's state: one field for each \<^verbatim>\<open>useState\<close> cell.\<close>

record state =
  formData :: HouseFormData
  errors :: FormErrors
  isLoading :: bool
  prediction :: "PredictionResponse option"
  apiError :: string
  isHealthy :: "bool option"

definition initial_state :: state where
  "initial_state =
     \<lparr>formData =
        \<lparr>bedrooms = ''3'', bathrooms = ''2'', living_area = ''1200'', condition = ''3'',
         schools = ''2''\<rparr>,
      errors = no_errors, isLoading = False, prediction = None, apiError = [],
      isHealthy = None\<rparr>"

text \<open>A string or \<^verbatim>\<open>undefined\<close> used as a condition: true for a non-empty string only.\<close>

definition truthy :: "string option \<Rightarrow> bool" where
  "truthy e = (case e of None \<Rightarrow> False | Some m \<Rightarrow> m \<noteq> [])"

definition validateField :: "field_name \<Rightarrow> string \<Rightarrow> string option" where
  "validateField name v =
     (let numValue = Number v
      in if trim v = [] \<or> isNaN numValue then
           Some ''This field is required and must be a valid number''
         else
           (case name of
              Bedrooms \<Rightarrow>
                if \<not> isInteger numValue \<or> js_less numValue (Fin 0) \<or> js_less (Fin 20) numValue
                then Some ''Bedrooms must be an integer between 0 and 20'' else None
            | Bathrooms \<Rightarrow>
                if \<not> isInteger numValue \<or> js_less numValue (Fin 0) \<or> js_less (Fin 20) numValue
                then Some ''Bathrooms must be an integer between 0 and 20'' else None
            | Living_area \<Rightarrow>
                if js_less numValue (Fin 0) \<or> js_less (Fin 100000) numValue
                then Some ''Living area must be between 0 and 100,000 sq ft'' else None
            | Condition \<Rightarrow>
                if \<not> isInteger numValue \<or> js_less numValue (Fin 1) \<or> js_less (Fin 5) numValue
                then Some ''Condition must be an integer between 1 and 5'' else None
            | Schools \<Rightarrow>
                if \<not> isInteger numValue \<or> js_less numValue (Fin 0) \<or> js_less (Fin 20) numValue
                then Some ''Schools must be an integer between 0 and 20'' else None))"

text \<open>The body of the \<^verbatim>\<open>forEach\<close> callback of \<^verbatim>\<open>validateForm\<close>, on the pair (newErrors, hasErrors).\<close>

definition validateForm_entry ::
  "field_name \<times> string \<Rightarrow> FormErrors \<times> bool \<Rightarrow> FormErrors \<times> bool" where
  "validateForm_entry kv acc =
     (let error = validateField (fst kv) (snd kv)
      in if truthy error then (set_field (fst kv) error (fst acc), True) else acc)"

text \<open>\<^verbatim>\<open>validateForm\<close>: stores the new errors in the state and returns whether the form is clean.\<close>

definition validateForm :: "state \<Rightarrow> state \<times> bool" where
  "validateForm s =
     (let r = fold validateForm_entry (Object_entries (formData s)) (no_errors, False)
      in (s\<lparr>errors := fst r\<rparr>, \<not> snd r))"

definition handleInputChange :: "field_name \<Rightarrow> string \<Rightarrow> state \<Rightarrow> state" where
  "handleInputChange name v s =
     (let s1 = s\<lparr>formData := set_field name v (formData s)\<rparr>;
          s2 = (if truthy (get_field name (errors s))
                then s1\<lparr>errors := set_field name None (errors s1)\<rparr> else s1);
          s3 = (if apiError s \<noteq> [] then s2\<lparr>apiError := []\<rparr> else s2)
      in if prediction s \<noteq> None then s3\<lparr>prediction := None\<rparr> else s3)"

text \<open>
  \<^verbatim>\<open>handleSubmit\<close> up to its \<^verbatim>\<open>await\<close>: the new state, and the argument of the call of
  \<^verbatim>\<open>predict\<close> when one is made.
\<close>

definition handleSubmit :: "state \<Rightarrow> state \<times> HouseFormData option" where
  "handleSubmit s =
     (let r = validateForm s
      in if \<not> snd r then (fst r, None)
         else ((fst r)\<lparr>isLoading := True, apiError := [], prediction := None\<rparr>,
               Some (formData s)))"

definition handleTrySample :: "state \<Rightarrow> state" where
  "handleTrySample s =
     s\<lparr>formData := SAMPLE_DATA, errors := no_errors, apiError := [], prediction := None\<rparr>"


section \<open>The API client (\<^verbatim>\<open>lib/api.ts\<close>)\<close>

text \<open>
  A thrown value is an instance of \<^verbatim>\<open>Error\<close> with its \<^verbatim>\<open>name\<close> and \<^verbatim>\<open>message\<close>, or some other
  value. \<^verbatim>\<open>new Error(m)\<close> has the name \<^verbatim>\<open>Error\<close>; aborting a request rejects \<^verbatim>\<open>fetch\<close> with an
  error named \<^verbatim>\<open>AbortError\<close>.
\<close>

datatype thrown = JsError string string | NonError

definition new_Error :: "string \<Rightarrow> thrown" where
  "new_Error m = JsError ''Error'' m"

text \<open>A parsed JSON value; an object keeps its members in the order of the text.\<close>

datatype json =
  JNull | JBool bool | JNum jsnum | JStr string | JArr "json list" | JObj "(string \<times> json) list"

text \<open>
  What the client observes of a response: the status code, what \<^verbatim>\<open>text()\<close> resolves to
  (\<open>None\<close> when reading the body fails) and what \<^verbatim>\<open>json()\<close> resolves to or rejects with.
\<close>

record response =
  status :: nat
  body_text :: "string option"
  body_json :: "thrown + json"

text \<open>\<^verbatim>\<open>response.ok\<close>: the status is in the range 200 to 299.\<close>

definition ok :: "response \<Rightarrow> bool" where
  "ok r = (200 \<le> status r \<and> status r \<le> 299)"

text \<open>
  How one \<^verbatim>\<open>fetch\<close> ends: it rejects (network failure, or the abort that the timer of
  the caller triggers), or it resolves with a response.
\<close>

datatype fetch_outcome = Rejects thrown | Resolves response

text \<open>The request was aborted by the timer: \<^verbatim>\<open>fetch\<close> rejected with an \<^verbatim>\<open>AbortError\<close>.\<close>

definition timed_out :: "fetch_outcome \<Rightarrow> bool" where
  "timed_out out =
     (case out of Rejects (JsError name m) \<Rightarrow> name = ''AbortError'' | _ \<Rightarrow> False)"

text \<open>
  Reading one of the properties \<^verbatim>\<open>status\<close>, \<^verbatim>\<open>price\<close>, \<^verbatim>\<open>currency\<close> of a parsed JSON value:
  on \<^verbatim>\<open>null\<close> the read throws a TypeError (the message is the engine's), on an object it is
  the member of that name (the last one when the text repeats a name) or \<^verbatim>\<open>undefined\<close>,
  and on a boolean, number, string or array it is \<^verbatim>\<open>undefined\<close>, here \<open>None\<close>.
\<close>

definition get_prop :: "json \<Rightarrow> string \<Rightarrow> thrown + json option" where
  "get_prop d k =
     (case d of
        JNull \<Rightarrow> Inl (JsError ''TypeError'' (''Cannot read properties of null (reading '' @ k @ '')''))
      | JObj kvs \<Rightarrow> Inr (map_of (rev kvs) k)
      | _ \<Rightarrow> Inr None)"

text \<open>The body of the \<^verbatim>\<open>try\<close> block of \<^verbatim>\<open>checkHealth\<close>, given how the request ends.\<close>

definition checkHealth_try :: "fetch_outcome \<Rightarrow> thrown + bool" where
  "checkHealth_try out =
     (case out of
        Rejects e \<Rightarrow> Inl e
      | Resolves r \<Rightarrow>
          if \<not> ok r then Inr False
          else (case body_json r of
                  Inl e \<Rightarrow> Inl e
                | Inr d \<Rightarrow> (case get_prop d ''status'' of
                              Inl e \<Rightarrow> Inl e
                            | Inr v \<Rightarrow> Inr (v = Some (JStr ''ok'')))))"

text \<open>\<^verbatim>\<open>checkHealth\<close>: \<open>Inl\<close> would be a rejected promise; the \<^verbatim>\<open>catch\<close> turns every throw into false.\<close>

definition checkHealth :: "fetch_outcome \<Rightarrow> thrown + bool" where
  "checkHealth out = (case checkHealth_try out of Inl e \<Rightarrow> Inr False | Inr b \<Rightarrow> Inr b)"

definition validateAndConvertForm :: "HouseFormData \<Rightarrow> thrown + PredictionRequest" where
  "validateAndConvertForm form =
     (let b = Number (bedrooms form); ba = Number (bathrooms form);
          la = Number (living_area form); c = Number (condition form);
          sc = Number (schools form)
      in if isNaN b \<or> isNaN ba \<or> isNaN la \<or> isNaN c \<or> isNaN sc
         then Inl (new_Error ''All form fields must be valid numbers'')
         else Inr \<lparr>bedrooms = Math_floor b, bathrooms = Math_floor ba, living_area = la,
                   condition = Math_floor c, schools = Math_floor sc\<rparr>)"

text \<open>The decimal digits of a natural number, as a template literal prints the status.\<close>

fun show_nat :: "nat \<Rightarrow> string" where
  "show_nat n =
     (if n < 10 then [''0123456789'' ! n]
      else show_nat (n div 10) @ [''0123456789'' ! (n mod 10)])"

declare show_nat.simps [simp del]

definition typeof_number :: "json option \<Rightarrow> bool" where
  "typeof_number v = (case v of Some (JNum x) \<Rightarrow> True | _ \<Rightarrow> False)"

definition typeof_string :: "json option \<Rightarrow> bool" where
  "typeof_string v = (case v of Some (JStr x) \<Rightarrow> True | _ \<Rightarrow> False)"

definition format_error :: thrown where
  "format_error = new_Error ''Invalid response format: missing or invalid price/currency fields''"

definition timeout_error :: thrown where
  "timeout_error = new_Error ''Request timed out after 15 seconds. Please try again.''"

definition http_error :: "nat \<Rightarrow> string \<Rightarrow> thrown" where
  "http_error st errorText = new_Error (''Prediction failed (HTTP '' @ show_nat st @ ''): '' @ errorText)"

text \<open>The body of the \<^verbatim>\<open>try\<close> block of \<^verbatim>\<open>predict\<close> from the point where \<^verbatim>\<open>fetch\<close> ends.\<close>

definition predict_try :: "fetch_outcome \<Rightarrow> thrown + PredictionResponse" where
  "predict_try out =
     (case out of
        Rejects e \<Rightarrow> Inl e
      | Resolves r \<Rightarrow>
          if \<not> ok r then
            Inl (http_error (status r)
                   (case body_text r of None \<Rightarrow> ''Unknown error'' | Some t \<Rightarrow> t))
          else
            (case body_json r of
               Inl e \<Rightarrow> Inl e
             | Inr d \<Rightarrow>
                 (case get_prop d ''price'' of
                    Inl e \<Rightarrow> Inl e
                  | Inr p \<Rightarrow>
                      if \<not> typeof_number p then Inl format_error
                      else (case get_prop d ''currency'' of
                              Inl e \<Rightarrow> Inl e
                            | Inr c \<Rightarrow>
                                if \<not> typeof_string c then Inl format_error
                                else (case (p, c) of
                                        (Some (JNum x), Some (JStr y)) \<Rightarrow>
                                          Inr \<lparr>price = x, currency = y\<rparr>
                                      | _ \<Rightarrow> Inl format_error)))))"

text \<open>The \<^verbatim>\<open>catch\<close> block of \<^verbatim>\<open>predict\<close>.\<close>

definition predict_catch :: "thrown \<Rightarrow> thrown" where
  "predict_catch error =
     (case error of
        JsError name m \<Rightarrow> if name = ''AbortError'' then timeout_error else error
      | NonError \<Rightarrow> new_Error ''An unexpected error occurred during prediction'')"

text \<open>The \<^verbatim>\<open>try\<close> statement of \<^verbatim>\<open>predict\<close> as a whole, given how its \<^verbatim>\<open>fetch\<close> ends.\<close>

definition predict_settle :: "fetch_outcome \<Rightarrow> thrown + PredictionResponse" where
  "predict_settle out =
     (case predict_try out of Inl e \<Rightarrow> Inl (predict_catch e) | Inr res \<Rightarrow> Inr res)"

text \<open>
  \<^verbatim>\<open>predict\<close>, given how the network answers a request: the bodies of the requests it
  issued (each is passed to \<^verbatim>\<open>JSON.stringify\<close>), and the value it resolves to or the error
  it rejects with. The URL and the headers of the request are left out.
\<close>

definition predict ::
  "HouseFormData \<Rightarrow> (PredictionRequest \<Rightarrow> fetch_outcome) \<Rightarrow>
     PredictionRequest list \<times> (thrown + PredictionResponse)" where
  "predict form net =
     (case validateAndConvertForm form of
        Inl e \<Rightarrow> ([], Inl e)
      | Inr requestData \<Rightarrow> ([requestData], predict_settle (net requestData)))"

section \<open>The running page: events and reachable states\<close>

text \<open>\<^verbatim>\<open>handleSubmit\<close> after its \<^verbatim>\<open>await\<close>: the \<^verbatim>\<open>try\<close>, \<^verbatim>\<open>catch\<close> and \<^verbatim>\<open>finally\<close> branches.\<close>

definition catch_message :: "thrown \<Rightarrow> string" where
  "catch_message error =
     (case error of JsError name m \<Rightarrow> m | NonError \<Rightarrow> ''An unexpected error occurred'')"

definition handleSubmit_resume :: "thrown + PredictionResponse \<Rightarrow> state \<Rightarrow> state" where
  "handleSubmit_resume res s =
     (case res of
        Inr result \<Rightarrow> s\<lparr>prediction := Some result\<rparr>
      | Inl error \<Rightarrow> s\<lparr>apiError := catch_message error\<rparr>)
     \<lparr>isLoading := False\<rparr>"

text \<open>
  The page together with its environment: the component state, the calls of \<^verbatim>\<open>predict\<close>
  that have not settled yet (each with its argument), the number of calls of \<^verbatim>\<open>predict\<close>
  made so far, and whether the health check of the mount effect is still running.
\<close>

record page =
  ui :: state
  in_flight :: "HouseFormData list"
  predict_calls :: nat
  health_pending :: bool

definition initial_page :: page where
  "initial_page = \<lparr>ui = initial_state, in_flight = [], predict_calls = 0, health_pending = True\<rparr>"

datatype event =
  Change field_name string
| SubmitForm
| KeyDown string
| ClickTrySample
| PredictSettled nat fetch_outcome
| HealthSettled fetch_outcome

text \<open>Running \<^verbatim>\<open>handleSubmit\<close> on the page: a call of \<^verbatim>\<open>predict\<close> it makes becomes in flight.\<close>

definition run_handleSubmit :: "page \<Rightarrow> page" where
  "run_handleSubmit p =
     (let r = handleSubmit (ui p)
      in case snd r of
           None \<Rightarrow> p\<lparr>ui := fst r\<rparr>
         | Some form \<Rightarrow>
             p\<lparr>ui := fst r, in_flight := in_flight p @ [form],
               predict_calls := Suc (predict_calls p)\<rparr>)"

text \<open>\<^verbatim>\<open>handleKeyDown\<close>, given the key of the event.\<close>

definition handleKeyDown :: "string \<Rightarrow> page \<Rightarrow> page" where
  "handleKeyDown key p =
     (if key = ''Enter'' \<and> \<not> isLoading (ui p) then run_handleSubmit p else p)"

text \<open>The mount effect after its \<^verbatim>\<open>await\<close>: it stores what \<^verbatim>\<open>checkHealth\<close> returned.\<close>

definition checkApiHealth_resume :: "thrown + bool \<Rightarrow> state \<Rightarrow> state" where
  "checkApiHealth_resume res s =
     (case res of Inr healthy \<Rightarrow> s\<lparr>isHealthy := Some healthy\<rparr> | Inl e \<Rightarrow> s)"

text \<open>
  One event. A handler runs on the state that the handlers before it have left, as the
  component is rendered again between two events. The submit button and the sample
  button carry \<^verbatim>\<open>disabled={isLoading}\<close>, so the submit event of the form and the click on
  the sample button do not occur while loading; \<^verbatim>\<open>handleKeyDown\<close> checks the flag itself;
  the inputs are never disabled. \<open>PredictSettled k out\<close> is the \<open>k\<close>-th call in flight
  ending with the network outcome \<open>out\<close>, and \<open>HealthSettled out\<close> the end of the one health
  check.
\<close>

fun dispatch :: "event \<Rightarrow> page \<Rightarrow> page" where
  "dispatch (Change name v) p = p\<lparr>ui := handleInputChange name v (ui p)\<rparr>"
| "dispatch SubmitForm p = (if isLoading (ui p) then p else run_handleSubmit p)"
| "dispatch (KeyDown key) p = handleKeyDown key p"
| "dispatch ClickTrySample p =
     (if isLoading (ui p) then p else p\<lparr>ui := handleTrySample (ui p)\<rparr>)"
| "dispatch (PredictSettled k out) p =
     (if k < length (in_flight p)
      then p\<lparr>ui := handleSubmit_resume (snd (predict (in_flight p ! k) (\<lambda>_. out))) (ui p),
             in_flight := take k (in_flight p) @ drop (Suc k) (in_flight p)\<rparr>
      else p)"
| "dispatch (HealthSettled out) p =
     (if health_pending p
      then p\<lparr>ui := checkApiHealth_resume (checkHealth out) (ui p), health_pending := False\<rparr>
      else p)"

inductive reachable :: "page \<Rightarrow> bool" where
  reachable_init: "reachable initial_page"
| reachable_step: "reachable p \<Longrightarrow> reachable (dispatch ev p)"


section \<open>Notions used to state the properties\<close>

text \<open>
  The range rule of a field as the specification words it, on the converted number:
  bedrooms, bathrooms and schools are integers from 0 to 20, the condition is an integer
  from 1 to 5, the living area is any number from 0 to 100000.
\<close>

fun spec_range_rule :: "field_name \<Rightarrow> jsnum \<Rightarrow> bool" where
  "spec_range_rule name (Fin q) =
     (case name of
        Living_area \<Rightarrow> 0 \<le> q \<and> q \<le> 100000
      | Condition \<Rightarrow> q \<in> \<int> \<and> 1 \<le> q \<and> q \<le> 5
      | _ \<Rightarrow> q \<in> \<int> \<and> 0 \<le> q \<and> q \<le> 20)"
| "spec_range_rule name _ = False"

text \<open>The result of validating each of the five fields of a form.\<close>

definition field_errors :: "HouseFormData \<Rightarrow> FormErrors" where
  "field_errors fd =
     \<lparr>bedrooms = validateField Bedrooms (bedrooms fd),
      bathrooms = validateField Bathrooms (bathrooms fd),
      living_area = validateField Living_area (living_area fd),
      condition = validateField Condition (condition fd),
      schools = validateField Schools (schools fd)\<rparr>"

text \<open>
  The numeric \<^verbatim>\<open>price\<close> and the string \<^verbatim>\<open>currency\<close> of the body of a response, when the body
  has both.
\<close>

definition expected_fields :: "response \<Rightarrow> PredictionResponse option" where
  "expected_fields r =
     (case body_json r of
        Inr (JObj kvs) \<Rightarrow>
          (case (map_of (rev kvs) ''price'', map_of (rev kvs) ''currency'') of
             (Some (JNum x), Some (JStr y)) \<Rightarrow> Some \<lparr>price = x, currency = y\<rparr>
           | _ \<Rightarrow> None)
      | _ \<Rightarrow> None)"



text \<open>
  The invariant of the page: while loading, exactly one call of \<^verbatim>\<open>predict\<close> is in flight
  and neither a prediction nor an API error is shown; otherwise no call is in flight; and
  a prediction and an API error are never shown together.
\<close>

definition page_inv :: "page \<Rightarrow> bool" where
  "page_inv p =
     ((if isLoading (ui p)
       then length (in_flight p) = 1 \<and> prediction (ui p) = None \<and> apiError (ui p) = []
       else in_flight p = []) \<and>
      (prediction (ui p) = None \<or> apiError (ui p) = []))"

section \<open>Evaluating the conversion on the inputs used below\<close>

lemma trim_plain:
  "trim ''3'' = ''3''" "trim ''2'' = ''2''" "trim ''1800'' = ''1800''" "trim ''50'' = ''50''"
  "trim ''1200'' = ''1200''"
  "trim ''0'' = ''0''" "trim ''abc'' = ''abc''" "trim ''-2.5'' = ''-2.5''"
  by (simp_all add: trim_def isWhiteSpace_def)

lemma Number_samples:
  "Number ''3'' = Fin 3" "Number ''2'' = Fin 2" "Number ''1800'' = Fin 1800"
  "Number ''50'' = Fin 50" "Number ''0'' = Fin 0" "Number ''1200'' = Fin 1200"
  by (simp_all add: Number_def trim_plain NonDecimalIntegerLiteral_def StrDecimalLiteral_def
      StrUnsignedDecimalLiteral_def Digits_def isDigit_def radixDigit_def hexVal_def Let_def)

lemma Number_blank: "Number [] = Fin 0" "trim [] = []"
  by (simp_all add: Number_def trim_def)

lemma Number_abc: "Number ''abc'' = NaN"
  by (simp add: Number_def trim_plain NonDecimalIntegerLiteral_def StrDecimalLiteral_def
      StrUnsignedDecimalLiteral_def Digits_def isDigit_def radixDigit_def hexVal_def Let_def)

lemma Number_negative_fraction: "Number ''-2.5'' = Fin (- 5 / 2)"
  by (simp add: Number_def trim_plain NonDecimalIntegerLiteral_def StrDecimalLiteral_def
      StrUnsignedDecimalLiteral_def Digits_def isDigit_def radixDigit_def hexVal_def Let_def
      ExponentPart_def pow10_def)

lemma floor_negative_fraction: "\<lfloor>- (5 / 2) :: rat\<rfloor> = - 3" "\<lfloor>5 / 2 :: rat\<rfloor> = 2"
  by (simp_all add: floor_eq_iff)

section \<open>Field validation\<close>

lemma validateField_message: "validateField name v = Some m \<Longrightarrow> m \<noteq> []"
  by (cases name) (auto simp: validateField_def Let_def split: if_splits)

lemma truthy_validateField: "truthy (validateField f v) \<longleftrightarrow> validateField f v \<noteq> None"
  by (cases "validateField f v") (auto simp: truthy_def dest: validateField_message)

lemma isInteger_Ints: "isInteger (Fin q) \<longleftrightarrow> q \<in> \<int>"
  by (auto simp: Ints_def)

lemma integer_range_check:
  "(\<not> isInteger x \<or> js_less x (Fin lo) \<or> js_less (Fin hi) x) \<longleftrightarrow>
     \<not> (case x of Fin q \<Rightarrow> q \<in> \<int> \<and> lo \<le> q \<and> q \<le> hi | _ \<Rightarrow> False)"
  by (cases x) (auto simp: isInteger_Ints simp del: isInteger.simps(1))

lemma number_range_check:
  "x \<noteq> NaN \<Longrightarrow>
   (js_less x (Fin lo) \<or> js_less (Fin hi) x) \<longleftrightarrow>
     \<not> (case x of Fin q \<Rightarrow> lo \<le> q \<and> q \<le> hi | _ \<Rightarrow> False)"
  by (cases x) auto

lemma validateField_None_iff:
  "validateField name v = None \<longleftrightarrow>
     trim v \<noteq> [] \<and> \<not> isNaN (Number v) \<and> spec_range_rule name (Number v)"
proof (cases "trim v = [] \<or> Number v = NaN")
  case True
  then show ?thesis by (auto simp: validateField_def isNaN_def)
next
  case False
  then have nn: "Number v \<noteq> NaN" and nb: "trim v \<noteq> []" by simp_all
  show ?thesis
  proof (cases name)
    case Living_area
    show ?thesis
      using nn nb number_range_check [OF nn, of 0 100000]
      by (cases "Number v") (simp_all add: validateField_def Living_area isNaN_def)
  next
    case Bedrooms
    show ?thesis
      using nn nb integer_range_check [of "Number v" 0 20]
      by (cases "Number v")
         (simp_all add: validateField_def Bedrooms isNaN_def del: isInteger.simps(1))
  next
    case Bathrooms
    show ?thesis
      using nn nb integer_range_check [of "Number v" 0 20]
      by (cases "Number v")
         (simp_all add: validateField_def Bathrooms isNaN_def del: isInteger.simps(1))
  next
    case Condition
    show ?thesis
      using nn nb integer_range_check [of "Number v" 1 5]
      by (cases "Number v")
         (simp_all add: validateField_def Condition isNaN_def del: isInteger.simps(1))
  next
    case Schools
    show ?thesis
      using nn nb integer_range_check [of "Number v" 0 20]
      by (cases "Number v")
         (simp_all add: validateField_def Schools isNaN_def del: isInteger.simps(1))
  qed
qed

text \<open>
  C2, as stated: the validator returns no error exactly when the value parses as a
  number and the number satisfies the range rule of the field, where parsing is the
  conversion of the source, \<^verbatim>\<open>Number(value)\<close>, and its result is a number unless it is NaN.
  This fails on the empty string: \<^verbatim>\<open>Number('')\<close> is 0, which is an integer from 0 to 20,
  and the validator rejects the value through its guard \<^verbatim>\<open>value.trim() === ''\<close>.
\<close>

theorem validateField_blank_counterexample:
  "validateField Bedrooms [] = Some ''This field is required and must be a valid number'' \<and>
   Number [] = Fin 0 \<and> \<not> isNaN (Number []) \<and> spec_range_rule Bedrooms (Number [])"
  by (simp add: validateField_def Number_blank isNaN_def)

text \<open>
  C2, amended: the validator returns no error exactly when the value is not blank (it is
  not empty once trimmed), converts to a number, and the number satisfies the range rule
  of the field; in every other case it returns a non-empty error message.
\<close>

theorem validateField_accepts_iff:
  "(validateField name v = None \<longleftrightarrow>
      trim v \<noteq> [] \<and> \<not> isNaN (Number v) \<and> spec_range_rule name (Number v)) \<and>
   (validateField name v = None \<or> (\<exists>m. validateField name v = Some m \<and> m \<noteq> []))"
  using validateField_None_iff [of name v] validateField_message [of name v]
  by (cases "validateField name v") simp_all

theorem validateField_accepts_iff_witness:
  "validateField Bedrooms ''3'' = None \<and>
   (\<exists>m. validateField Condition ''0'' = Some m \<and> m \<noteq> []) \<and>
   (\<exists>m. validateField Living_area ''abc'' = Some m \<and> m \<noteq> [])"
  using validateField_accepts_iff [of Bedrooms "''3''"]
    validateField_accepts_iff [of Condition "''0''"]
    validateField_accepts_iff [of Living_area "''abc''"]
  by (auto simp: Number_samples Number_abc trim_plain isNaN_def)

section \<open>Conversion of the form values by \<^verbatim>\<open>predict\<close>\<close>

text \<open>
  C4, as stated: when all five fields convert to numbers, the payload holds bedrooms,
  bathrooms, condition and schools truncated to integers. The source applies
  \<^verbatim>\<open>Math.floor\<close>, which differs from truncation on a negative fraction: for bedrooms
  \<^verbatim>\<open>-2.5\<close> the payload holds -3, and the truncated value is -2.
\<close>

theorem validateAndConvertForm_floor_counterexample:
  "validateAndConvertForm
     \<lparr>bedrooms = ''-2.5'', bathrooms = ''2'', living_area = ''1800'', condition = ''3'',
      schools = ''2''\<rparr> =
     Inr \<lparr>bedrooms = Fin (- 3), bathrooms = Fin 2, living_area = Fin 1800, condition = Fin 3,
          schools = Fin 2\<rparr> \<and>
   Math_trunc (Number ''-2.5'') = Fin (- 2)"
  by (simp add: validateAndConvertForm_def Let_def Number_samples Number_negative_fraction
      floor_negative_fraction isNaN_def)

text \<open>
  C4, amended: when the conversion of some field is NaN, \<^verbatim>\<open>predict\<close> fails with the input
  error and issues no request. When no conversion is NaN, the payload holds bedrooms,
  bathrooms, condition and schools rounded down by \<^verbatim>\<open>Math.floor\<close> (towards minus infinity,
  an infinity unchanged) and the living area as converted, and \<^verbatim>\<open>predict\<close> issues the
  request with this payload.
\<close>

theorem predict_conversion:
  "(isNaN (Number (bedrooms form)) \<or> isNaN (Number (bathrooms form)) \<or>
    isNaN (Number (living_area form)) \<or> isNaN (Number (condition form)) \<or>
    isNaN (Number (schools form)) \<longrightarrow>
      predict form net = ([], Inl (new_Error ''All form fields must be valid numbers''))) \<and>
   (\<not> isNaN (Number (bedrooms form)) \<and> \<not> isNaN (Number (bathrooms form)) \<and>
    \<not> isNaN (Number (living_area form)) \<and> \<not> isNaN (Number (condition form)) \<and>
    \<not> isNaN (Number (schools form)) \<longrightarrow>
      validateAndConvertForm form =
        Inr \<lparr>bedrooms = Math_floor (Number (bedrooms form)),
             bathrooms = Math_floor (Number (bathrooms form)),
             living_area = Number (living_area form),
             condition = Math_floor (Number (condition form)),
             schools = Math_floor (Number (schools form))\<rparr> \<and>
      fst (predict form net) =
        [\<lparr>bedrooms = Math_floor (Number (bedrooms form)),
          bathrooms = Math_floor (Number (bathrooms form)),
          living_area = Number (living_area form),
          condition = Math_floor (Number (condition form)),
          schools = Math_floor (Number (schools form))\<rparr>])"
  by (simp add: predict_def validateAndConvertForm_def Let_def)

theorem predict_conversion_witness:
  "predict
     \<lparr>bedrooms = ''3'', bathrooms = ''abc'', living_area = ''1800'', condition = ''3'',
      schools = ''2''\<rparr> (\<lambda>req. Rejects NonError) =
     ([], Inl (new_Error ''All form fields must be valid numbers'')) \<and>
   fst (predict
     \<lparr>bedrooms = ''-2.5'', bathrooms = ''2'', living_area = ''1800'', condition = ''3'',
      schools = ''2''\<rparr> (\<lambda>req. Rejects NonError)) =
     [\<lparr>bedrooms = Fin (- 3), bathrooms = Fin 2, living_area = Fin 1800, condition = Fin 3,
       schools = Fin 2\<rparr>]"
  using
    predict_conversion [of "\<lparr>bedrooms = ''3'', bathrooms = ''abc'', living_area = ''1800'',
      condition = ''3'', schools = ''2''\<rparr>" "\<lambda>req. Rejects NonError"]
    predict_conversion [of "\<lparr>bedrooms = ''-2.5'', bathrooms = ''2'', living_area = ''1800'',
      condition = ''3'', schools = ''2''\<rparr>" "\<lambda>req. Rejects NonError"]
  by (simp add: Number_samples Number_abc Number_negative_fraction floor_negative_fraction
      isNaN_def)

text \<open>
  C10. \<^verbatim>\<open>predict\<close> checks no range: whenever no conversion is NaN it issues exactly one
  request, built from the converted values, and its result is what the answer of the
  network to that request gives; no error of \<^verbatim>\<open>predict\<close> depends on the range of a value.
  The ranges are checked by \<^verbatim>\<open>validateField\<close> only.
\<close>

theorem predict_no_range_check:
  assumes "\<not> isNaN (Number (bedrooms form))" "\<not> isNaN (Number (bathrooms form))"
    "\<not> isNaN (Number (living_area form))" "\<not> isNaN (Number (condition form))"
    "\<not> isNaN (Number (schools form))"
  shows "predict form net =
     ([\<lparr>bedrooms = Math_floor (Number (bedrooms form)),
        bathrooms = Math_floor (Number (bathrooms form)),
        living_area = Number (living_area form),
        condition = Math_floor (Number (condition form)),
        schools = Math_floor (Number (schools form))\<rparr>],
      predict_settle
        (net \<lparr>bedrooms = Math_floor (Number (bedrooms form)),
              bathrooms = Math_floor (Number (bathrooms form)),
              living_area = Number (living_area form),
              condition = Math_floor (Number (condition form)),
              schools = Math_floor (Number (schools form))\<rparr>))"
  using assms by (simp add: predict_def validateAndConvertForm_def Let_def)

theorem predict_no_range_check_witness:
  "validateField Bedrooms ''50'' = Some ''Bedrooms must be an integer between 0 and 20'' \<and>
   validateField Condition ''0'' = Some ''Condition must be an integer between 1 and 5'' \<and>
   predict
     \<lparr>bedrooms = ''50'', bathrooms = ''2'', living_area = ''1800'', condition = ''0'',
      schools = ''2''\<rparr>
     (\<lambda>req. Resolves \<lparr>status = 200, body_text = None,
        body_json = Inr (JObj [(''price'', JNum (Fin 450000)), (''currency'', JStr ''USD'')])\<rparr>) =
     ([\<lparr>bedrooms = Fin 50, bathrooms = Fin 2, living_area = Fin 1800, condition = Fin 0,
        schools = Fin 2\<rparr>],
      Inr \<lparr>price = Fin 450000, currency = ''USD''\<rparr>)"
proof -
  have v: "validateField Bedrooms ''50'' = Some ''Bedrooms must be an integer between 0 and 20''"
    "validateField Condition ''0'' = Some ''Condition must be an integer between 1 and 5''"
    by (simp_all add: validateField_def Number_samples trim_plain isNaN_def)
  show ?thesis
    using v predict_no_range_check [of "\<lparr>bedrooms = ''50'', bathrooms = ''2'',
      living_area = ''1800'', condition = ''0'', schools = ''2''\<rparr>"
      "\<lambda>req. Resolves \<lparr>status = 200, body_text = None,
        body_json = Inr (JObj [(''price'', JNum (Fin 450000)), (''currency'', JStr ''USD'')])\<rparr>"]
    by (simp add: Number_samples isNaN_def predict_settle_def predict_try_def ok_def
        get_prop_def typeof_number_def typeof_string_def)
qed

section \<open>The sample action\<close>

text \<open>
  C9. From every state, \<^verbatim>\<open>handleTrySample\<close> sets the five fields to the sample values
  (bedrooms 3, bathrooms 2, living area 1800, condition 3, schools 2), and clears every
  field error, the prediction and the API error. The loading flag and the health status
  are left as they were.
\<close>

theorem handleTrySample_resets:
  "formData (handleTrySample s) =
     \<lparr>bedrooms = ''3'', bathrooms = ''2'', living_area = ''1800'', condition = ''3'',
      schools = ''2''\<rparr> \<and>
   (\<forall>f. get_field f (errors (handleTrySample s)) = None) \<and>
   prediction (handleTrySample s) = None \<and>
   apiError (handleTrySample s) = [] \<and>
   isLoading (handleTrySample s) = isLoading s \<and>
   isHealthy (handleTrySample s) = isHealthy s"
proof -
  have "get_field f no_errors = None" for f
    by (cases f) (simp_all add: no_errors_def)
  then show ?thesis
    by (simp add: handleTrySample_def SAMPLE_DATA_def)
qed

section \<open>The health check\<close>

text \<open>
  C5. \<^verbatim>\<open>checkHealth\<close> always returns a boolean and never throws. When the request is
  rejected (network failure, or the abort of the timeout) the result is false. When it
  resolves, the result is true exactly if the status is a success status and the body
  parses to an object whose \<^verbatim>\<open>status\<close> member is the string \<^verbatim>\<open>ok\<close>.
\<close>

theorem checkHealth_boolean:
  "(\<exists>b. checkHealth out = Inr b) \<and>
   checkHealth (Rejects e) = Inr False \<and>
   checkHealth (Resolves r) =
     Inr (ok r \<and> (\<exists>kvs. body_json r = Inr (JObj kvs) \<and>
                         map_of (rev kvs) ''status'' = Some (JStr ''ok'')))"
proof -
  have "\<exists>b. checkHealth out = Inr b"
    by (auto simp: checkHealth_def split: sum.splits)
  moreover have "checkHealth (Rejects e) = Inr False"
    by (simp add: checkHealth_def checkHealth_try_def)
  moreover have "checkHealth (Resolves r) =
     Inr (ok r \<and> (\<exists>kvs. body_json r = Inr (JObj kvs) \<and>
                         map_of (rev kvs) ''status'' = Some (JStr ''ok'')))"
    by (auto simp: checkHealth_def checkHealth_try_def get_prop_def
        split: sum.splits json.splits)
  ultimately show ?thesis by blast
qed

section \<open>The request that \<^verbatim>\<open>predict\<close> sends\<close>

text \<open>
  C6. For the form values bedrooms 3, bathrooms 2, living area 1800, condition 3 and
  schools 2, \<^verbatim>\<open>predict\<close> issues one request, and the object it serialises as the body has
  bedrooms 3, bathrooms 2, living_area 1800, condition 3 and schools 2.
\<close>

theorem predict_sample_request:
  "fst (predict
          \<lparr>bedrooms = ''3'', bathrooms = ''2'', living_area = ''1800'', condition = ''3'',
           schools = ''2''\<rparr> net) =
     [\<lparr>bedrooms = Fin 3, bathrooms = Fin 2, living_area = Fin 1800, condition = Fin 3,
       schools = Fin 2\<rparr>]"
  by (simp add: predict_def validateAndConvertForm_def Number_samples isNaN_def Let_def)

section \<open>Submitting the form\<close>

lemma all_field_names:
  "(\<forall>f. P f) \<longleftrightarrow> P Bedrooms \<and> P Bathrooms \<and> P Living_area \<and> P Condition \<and> P Schools"
  by (metis field_name.exhaust)

lemma ex_field_names:
  "(\<exists>f. P f) \<longleftrightarrow> P Bedrooms \<or> P Bathrooms \<or> P Living_area \<or> P Condition \<or> P Schools"
  by (metis field_name.exhaust)

lemma get_field_errors: "get_field f (field_errors fd) = validateField f (get_field f fd)"
  by (cases f) (simp_all add: field_errors_def)

lemma set_field_same: "get_field f e = v \<Longrightarrow> set_field f v e = e"
  by (cases f) auto

lemma validateForm_entry_eq:
  "get_field f e = None \<Longrightarrow>
   validateForm_entry (f, v) (e, h) =
     (set_field f (validateField f v) e, h \<or> validateField f v \<noteq> None)"
  unfolding validateForm_entry_def Let_def truthy_validateField
  by (auto simp: set_field_same)

lemma fold_entries:
  "fold validateForm_entry (Object_entries fd) (no_errors, False) =
     (field_errors fd, \<exists>f. validateField f (get_field f fd) \<noteq> None)"
  by (simp add: Object_entries_def no_errors_def validateForm_entry_eq field_errors_def
      ex_field_names)

lemma validateForm_eq:
  "validateForm s =
     (s\<lparr>errors := field_errors (formData s)\<rparr>,
      \<forall>f. validateField f (get_field f (formData s)) = None)"
  by (simp add: validateForm_def fold_entries Let_def)

lemma handleSubmit_eq:
  "handleSubmit s =
     (if \<exists>f. validateField f (get_field f (formData s)) \<noteq> None
      then (s\<lparr>errors := field_errors (formData s)\<rparr>, None)
      else (s\<lparr>errors := field_errors (formData s), isLoading := True, apiError := [],
              prediction := None\<rparr>, Some (formData s)))"
  by (simp add: handleSubmit_def validateForm_eq Let_def)

lemma run_handleSubmit_eq:
  "run_handleSubmit p =
     (if \<exists>f. validateField f (get_field f (formData (ui p))) \<noteq> None
      then p\<lparr>ui := (ui p)\<lparr>errors := field_errors (formData (ui p))\<rparr>\<rparr>
      else p\<lparr>ui := (ui p)\<lparr>errors := field_errors (formData (ui p)), isLoading := True,
                        apiError := [], prediction := None\<rparr>,
             in_flight := in_flight p @ [formData (ui p)],
             predict_calls := Suc (predict_calls p)\<rparr>)"
  by (simp add: run_handleSubmit_def handleSubmit_eq Let_def)

lemma validateField_samples:
  "validateField Bedrooms ''3'' = None" "validateField Bathrooms ''2'' = None"
  "validateField Living_area ''1200'' = None" "validateField Condition ''3'' = None"
  "validateField Schools ''2'' = None"
  "validateField Bedrooms [] = Some ''This field is required and must be a valid number''"
  "validateField Condition ''0'' = Some ''Condition must be an integer between 1 and 5''"
  by (simp_all add: validateField_def Number_samples Number_blank trim_plain isNaN_def)

text \<open>
  C1. When at least one field fails its validation, \<^verbatim>\<open>handleSubmit\<close> calls \<^verbatim>\<open>predict\<close> not at
  all, changes nothing in the state but the errors, and stores the validation result of
  all five fields, so that every failing field has its non-empty message at once. A call
  of \<^verbatim>\<open>predict\<close> is made only if all five validations pass. On the page, the number of calls
  of \<^verbatim>\<open>predict\<close> and the calls in flight stay as they were.
\<close>

theorem handleSubmit_invalid_form:
  "((\<exists>f. validateField f (get_field f (formData s)) \<noteq> None) \<longrightarrow>
      snd (handleSubmit s) = None \<and>
      fst (handleSubmit s) = s\<lparr>errors := errors (fst (handleSubmit s))\<rparr> \<and>
      (\<forall>f. get_field f (errors (fst (handleSubmit s))) =
             validateField f (get_field f (formData s))) \<and>
      (\<forall>f. validateField f (get_field f (formData s)) \<noteq> None \<longrightarrow>
             (\<exists>m. get_field f (errors (fst (handleSubmit s))) = Some m \<and> m \<noteq> []))) \<and>
   (snd (handleSubmit s) \<noteq> None \<longrightarrow>
      (\<forall>f. validateField f (get_field f (formData s)) = None)) \<and>
   ((\<exists>f. validateField f (get_field f (formData (ui p))) \<noteq> None) \<longrightarrow>
      predict_calls (run_handleSubmit p) = predict_calls p \<and>
      in_flight (run_handleSubmit p) = in_flight p)"
proof -
  have msg: "validateField f v \<noteq> None \<Longrightarrow> \<exists>m. validateField f v = Some m \<and> m \<noteq> []" for f v
    by (cases "validateField f v") (auto dest: validateField_message)
  show ?thesis
    by (simp add: handleSubmit_eq run_handleSubmit_eq get_field_errors msg)
qed

theorem handleSubmit_invalid_form_witness:
  "snd (handleSubmit
          (initial_state\<lparr>formData :=
             \<lparr>bedrooms = [], bathrooms = ''2'', living_area = ''1200'', condition = ''0'',
              schools = ''2''\<rparr>\<rparr>)) = None \<and>
   errors (fst (handleSubmit
          (initial_state\<lparr>formData :=
             \<lparr>bedrooms = [], bathrooms = ''2'', living_area = ''1200'', condition = ''0'',
              schools = ''2''\<rparr>\<rparr>))) =
     \<lparr>bedrooms = Some ''This field is required and must be a valid number'',
      bathrooms = None, living_area = None,
      condition = Some ''Condition must be an integer between 1 and 5'', schools = None\<rparr> \<and>
   snd (handleSubmit initial_state) \<noteq> None \<and>
   (\<forall>f. validateField f (get_field f (formData initial_state)) = None) \<and>
   predict_calls (run_handleSubmit
     (initial_page\<lparr>ui := initial_state\<lparr>formData :=
             \<lparr>bedrooms = [], bathrooms = ''2'', living_area = ''1200'', condition = ''0'',
              schools = ''2''\<rparr>\<rparr>\<rparr>)) = 0"
proof -
  let ?s = "initial_state\<lparr>formData :=
             \<lparr>bedrooms = [], bathrooms = ''2'', living_area = ''1200'', condition = ''0'',
              schools = ''2''\<rparr>\<rparr>"
  have bad: "\<exists>f. validateField f (get_field f (formData ?s)) \<noteq> None"
    by (rule exI [of _ Bedrooms]) (simp add: validateField_samples)
  have good: "snd (handleSubmit initial_state) \<noteq> None"
    by (simp add: handleSubmit_eq all_field_names initial_state_def validateField_samples)
  have e: "errors (fst (handleSubmit ?s)) = field_errors (formData ?s)"
    by (simp add: handleSubmit_eq)
  show ?thesis
    using bad good handleSubmit_invalid_form [of ?s "initial_page\<lparr>ui := ?s\<rparr>"]
      handleSubmit_invalid_form [of initial_state initial_page]
    by (simp add: e field_errors_def validateField_samples initial_page_def)
qed

section \<open>Classification of the answer by \<^verbatim>\<open>predict\<close>\<close>

lemma show_nat_500: "show_nat 500 = ''500''"
  by (simp add: show_nat.simps)

text \<open>
  For the body \<^verbatim>\<open>null\<close> of a success response, reading \<^verbatim>\<open>data.price\<close> throws a TypeError before
  the check of the two fields is reached, and \<^verbatim>\<open>predict\<close> fails with that TypeError.
\<close>

lemma predict_null_body:
  "snd (predict SAMPLE_DATA (\<lambda>req. Resolves \<lparr>status = 200, body_text = Some ''null'',
       body_json = Inr JNull\<rparr>)) =
     Inl (JsError ''TypeError'' ''Cannot read properties of null (reading price)'')"
  by (simp add: ok_def predict_def validateAndConvertForm_def SAMPLE_DATA_def Number_samples
      isNaN_def Let_def predict_settle_def predict_try_def predict_catch_def get_prop_def)

text \<open>
  C7, as stated: every success response whose body lacks a numeric price or a string
  currency yields the format error. This fails when the body is not JSON: the status is
  200, the body has neither field, \<^verbatim>\<open>json()\<close> rejects with the SyntaxError of the parser,
  and the \<^verbatim>\<open>catch\<close> block throws that error again unchanged.
\<close>

theorem predict_unparsable_body_counterexample:
  "ok \<lparr>status = 200, body_text = Some ''<html>'',
       body_json = Inl (JsError ''SyntaxError'' ''Unexpected token <'')\<rparr> \<and>
   expected_fields \<lparr>status = 200, body_text = Some ''<html>'',
       body_json = Inl (JsError ''SyntaxError'' ''Unexpected token <'')\<rparr> = None \<and>
   snd (predict SAMPLE_DATA (\<lambda>req. Resolves \<lparr>status = 200, body_text = Some ''<html>'',
       body_json = Inl (JsError ''SyntaxError'' ''Unexpected token <'')\<rparr>)) =
     Inl (JsError ''SyntaxError'' ''Unexpected token <'') \<and>
   JsError ''SyntaxError'' ''Unexpected token <'' \<noteq> format_error"
  by (simp add: ok_def expected_fields_def predict_def validateAndConvertForm_def
      SAMPLE_DATA_def Number_samples isNaN_def Let_def predict_settle_def predict_try_def
      predict_catch_def format_error_def new_Error_def)

lemma predict_settle_timeout: "timed_out out \<Longrightarrow> predict_settle out = Inl timeout_error"
  by (auto simp: timed_out_def predict_settle_def predict_try_def predict_catch_def
      split: fetch_outcome.splits thrown.splits)

lemma predict_settle_http:
  "\<not> ok r \<Longrightarrow>
   predict_settle (Resolves r) =
     Inl (http_error (status r) (case body_text r of None \<Rightarrow> ''Unknown error'' | Some t \<Rightarrow> t))"
  by (simp add: predict_settle_def predict_try_def predict_catch_def http_error_def
      new_Error_def)

lemma predict_settle_format:
  assumes "ok r" "body_json r = Inr d" "d \<noteq> JNull" "expected_fields r = None"
  shows "predict_settle (Resolves r) = Inl format_error"
proof -
  have c: "predict_catch format_error = format_error"
    by (simp add: predict_catch_def format_error_def new_Error_def)
  show ?thesis
    using assms
    by (cases d)
       (auto simp: predict_settle_def predict_try_def get_prop_def typeof_number_def
          typeof_string_def
          expected_fields_def c split: option.splits json.splits)
qed

lemma predict_settle_result:
  assumes "ok r" "expected_fields r = Some res"
  shows "predict_settle (Resolves r) = Inr res"
  using assms
  by (auto simp: predict_settle_def predict_try_def get_prop_def typeof_number_def
      typeof_string_def
      expected_fields_def split: sum.splits option.splits json.splits)

lemma predict_settle_unparsable:
  "ok r \<Longrightarrow> body_json r = Inl e \<Longrightarrow> predict_settle (Resolves r) = Inl (predict_catch e)"
  by (simp add: predict_settle_def predict_try_def)

text \<open>
  C7, amended: for every way the request of \<^verbatim>\<open>predict\<close> ends, a timeout yields the
  timeout error, which is not the generic one; a non-success status yields an error whose
  message embeds the status code and the body text (or \<^verbatim>\<open>Unknown error\<close> when the body
  cannot be read); a success response whose body parses as JSON to a value other than
  \<^verbatim>\<open>null\<close> and lacks a numeric price or a string currency yields the format error; a success
  response whose body has both fields returns them as the result; and a success response
  whose body does not parse fails with what the \<^verbatim>\<open>catch\<close> block makes of the error of
  the parser, which is that error itself unless it is named \<^verbatim>\<open>AbortError\<close>.
\<close>

theorem predict_classification:
  "(validateAndConvertForm form = Inr req \<longrightarrow>
      snd (predict form net) = predict_settle (net req)) \<and>
   (timed_out out \<longrightarrow> predict_settle out = Inl timeout_error) \<and>
   timeout_error \<noteq> new_Error ''An unexpected error occurred during prediction'' \<and>
   (\<not> ok r \<longrightarrow>
      predict_settle (Resolves r) =
        Inl (new_Error (''Prediction failed (HTTP '' @ show_nat (status r) @ ''): '' @
               (case body_text r of None \<Rightarrow> ''Unknown error'' | Some t \<Rightarrow> t)))) \<and>
   (ok r \<and> body_json r = Inr d \<and> d \<noteq> JNull \<and> expected_fields r = None \<longrightarrow>
      predict_settle (Resolves r) = Inl format_error) \<and>
   (ok r \<and> expected_fields r = Some res \<longrightarrow> predict_settle (Resolves r) = Inr res) \<and>
   (ok r \<and> body_json r = Inl (JsError name m) \<and> name \<noteq> ''AbortError'' \<longrightarrow>
      predict_settle (Resolves r) = Inl (JsError name m))"
proof -
  have "timeout_error \<noteq> new_Error ''An unexpected error occurred during prediction''"
    by (simp add: timeout_error_def new_Error_def)
  moreover have "validateAndConvertForm form = Inr req \<longrightarrow>
      snd (predict form net) = predict_settle (net req)"
    by (simp add: predict_def)
  moreover have "ok r \<and> body_json r = Inl (JsError name m) \<and> name \<noteq> ''AbortError'' \<longrightarrow>
      predict_settle (Resolves r) = Inl (JsError name m)"
    by (simp add: predict_settle_unparsable predict_catch_def)
  ultimately show ?thesis
    using predict_settle_timeout [of out] predict_settle_http [of r]
      predict_settle_format [of r d] predict_settle_result [of r res]
    by (simp add: http_error_def)
qed

theorem predict_classification_witness:
  "snd (predict SAMPLE_DATA (\<lambda>req. Rejects (JsError ''AbortError'' ''The operation was aborted.''))) =
     Inl (new_Error ''Request timed out after 15 seconds. Please try again.'') \<and>
   predict_settle (Resolves \<lparr>status = 500, body_text = Some ''Internal Server Error'',
       body_json = Inl (JsError ''SyntaxError'' ''Unexpected token I'')\<rparr>) =
     Inl (new_Error ''Prediction failed (HTTP 500): Internal Server Error'') \<and>
   predict_settle (Resolves \<lparr>status = 200, body_text = None,
       body_json = Inr (JObj [(''price'', JStr ''450000''), (''currency'', JStr ''USD'')])\<rparr>) =
     Inl (new_Error ''Invalid response format: missing or invalid price/currency fields'') \<and>
   predict_settle (Resolves \<lparr>status = 200, body_text = None,
       body_json = Inr (JObj [(''price'', JNum (Fin 450000)), (''currency'', JStr ''USD'')])\<rparr>) =
     Inr \<lparr>price = Fin 450000, currency = ''USD''\<rparr> \<and>
   predict_settle (Resolves \<lparr>status = 200, body_text = Some ''<html>'',
       body_json = Inl (JsError ''SyntaxError'' ''Unexpected token <'')\<rparr>) =
     Inl (JsError ''SyntaxError'' ''Unexpected token <'')"
proof -
  let ?abort = "Rejects (JsError ''AbortError'' ''The operation was aborted.'')"
  let ?req = "\<lparr>bedrooms = Fin 3, bathrooms = Fin 2, living_area = Fin 1800, condition = Fin 3,
    schools = Fin 2\<rparr> :: PredictionRequest"
  let ?r500 = "\<lparr>status = 500, body_text = Some ''Internal Server Error'',
       body_json = Inl (JsError ''SyntaxError'' ''Unexpected token I'')\<rparr>"
  let ?rbad = "\<lparr>status = 200, body_text = None,
       body_json = Inr (JObj [(''price'', JStr ''450000''), (''currency'', JStr ''USD'')])\<rparr>"
  let ?rgood = "\<lparr>status = 200, body_text = None,
       body_json = Inr (JObj [(''price'', JNum (Fin 450000)), (''currency'', JStr ''USD'')])\<rparr>"
  let ?rhtml = "\<lparr>status = 200, body_text = Some ''<html>'',
       body_json = Inl (JsError ''SyntaxError'' ''Unexpected token <'')\<rparr>"
  have conv: "validateAndConvertForm SAMPLE_DATA = Inr ?req"
    by (simp add: validateAndConvertForm_def SAMPLE_DATA_def Number_samples isNaN_def Let_def)
  have t: "timed_out ?abort"
    by (simp add: timed_out_def)
  show ?thesis
    using conv t
      predict_classification [of SAMPLE_DATA ?req "\<lambda>req. ?abort" ?abort ?r500]
      predict_classification [of SAMPLE_DATA ?req "\<lambda>req. ?abort" ?abort ?rbad
        "JObj [(''price'', JStr ''450000''), (''currency'', JStr ''USD'')]"]
      predict_classification [of SAMPLE_DATA ?req "\<lambda>req. ?abort" ?abort ?rgood _
        "\<lparr>price = Fin 450000, currency = ''USD''\<rparr>"]
      predict_classification [of SAMPLE_DATA ?req "\<lambda>req. ?abort" ?abort ?rhtml _ _
        "''SyntaxError''" "''Unexpected token <''"]
    by (simp add: ok_def expected_fields_def show_nat_500 timeout_error_def format_error_def)
qed

section \<open>The invariant of the running page\<close>

lemma handleInputChange_fields:
  "isLoading (handleInputChange n v s) = isLoading s"
  "prediction (handleInputChange n v s) = None"
  "apiError (handleInputChange n v s) = []"
  by (simp_all add: handleInputChange_def Let_def)

lemma page_inv_run_handleSubmit:
  "page_inv p \<Longrightarrow> \<not> isLoading (ui p) \<Longrightarrow> page_inv (run_handleSubmit p)"
  by (simp add: run_handleSubmit_eq page_inv_def)

lemma handleSubmit_resume_fields:
  "isLoading (handleSubmit_resume res s) = False"
  "prediction (handleSubmit_resume res s) =
     (case res of Inr r \<Rightarrow> Some r | Inl e \<Rightarrow> prediction s)"
  "apiError (handleSubmit_resume res s) =
     (case res of Inr r \<Rightarrow> apiError s | Inl e \<Rightarrow> catch_message e)"
  by (simp_all add: handleSubmit_resume_def split: sum.splits)

lemma page_inv_initial: "page_inv initial_page"
  by (simp add: page_inv_def initial_page_def initial_state_def)

lemma page_inv_dispatch:
  assumes inv: "page_inv p"
  shows "page_inv (dispatch ev p)"
proof (cases ev)
  case (Change n v)
  with inv show ?thesis
    by (simp add: page_inv_def handleInputChange_fields)
next
  case SubmitForm
  with inv show ?thesis
    by (simp add: page_inv_run_handleSubmit)
next
  case (KeyDown key)
  with inv show ?thesis
    by (simp add: handleKeyDown_def page_inv_run_handleSubmit)
next
  case ClickTrySample
  with inv show ?thesis
    by (simp add: page_inv_def handleTrySample_def)
next
  case (PredictSettled k out)
  show ?thesis
  proof (cases "k < length (in_flight p)")
    case True
    with inv have "isLoading (ui p)" "length (in_flight p) = 1"
      by (auto simp: page_inv_def split: if_splits)
    with inv True show ?thesis
      by (auto simp: PredictSettled page_inv_def handleSubmit_resume_fields split: sum.splits)
  next
    case False
    with inv show ?thesis by (simp add: PredictSettled)
  qed
next
  case (HealthSettled out)
  with inv show ?thesis
    by (simp add: page_inv_def checkApiHealth_resume_def split: sum.splits)
qed

lemma reachable_page_inv: "reachable p \<Longrightarrow> page_inv p"
  by (induction rule: reachable.induct) (simp_all add: page_inv_initial page_inv_dispatch)

lemma predict_calls_while_loading:
  "isLoading (ui p) \<Longrightarrow> predict_calls (dispatch ev p) = predict_calls p"
  by (cases ev) (simp_all add: handleKeyDown_def)




lemma first_submit:
  "dispatch SubmitForm initial_page =
     \<lparr>ui = initial_state\<lparr>isLoading := True\<rparr>, in_flight = [formData initial_state],
      predict_calls = 1, health_pending = True\<rparr>"
proof -
  have "\<forall>f. validateField f (get_field f (formData initial_state)) = None"
    by (simp add: all_field_names initial_state_def validateField_samples)
  moreover have "field_errors (formData initial_state) = no_errors"
    by (simp add: field_errors_def initial_state_def validateField_samples no_errors_def)
  ultimately show ?thesis
    by (simp add: run_handleSubmit_eq initial_page_def) (simp add: initial_state_def)
qed




text \<open>
  C8. In every reachable state at most one call of \<^verbatim>\<open>predict\<close> is in flight, and one is in
  flight exactly while the loading flag is set. While it is set, no event makes a call of
  \<^verbatim>\<open>predict\<close>: after any event the number of calls made is unchanged and still at most one
  call is in flight.
\<close>

theorem no_submission_while_loading:
  assumes "reachable p"
  shows "length (in_flight p) \<le> 1 \<and>
    (isLoading (ui p) \<longleftrightarrow> in_flight p \<noteq> []) \<and>
    (isLoading (ui p) \<longrightarrow>
       predict_calls (dispatch ev p) = predict_calls p \<and>
       length (in_flight (dispatch ev p)) \<le> 1)"
proof -
  have inv: "page_inv p"
    using assms by (rule reachable_page_inv)
  have "page_inv (dispatch ev p)"
    using inv by (rule page_inv_dispatch)
  then have "length (in_flight (dispatch ev p)) \<le> 1"
    by (auto simp: page_inv_def split: if_splits)
  moreover have "length (in_flight p) \<le> 1" "isLoading (ui p) \<longleftrightarrow> in_flight p \<noteq> []"
    using inv by (auto simp: page_inv_def split: if_splits)
  ultimately show ?thesis
    by (simp add: predict_calls_while_loading)
qed

theorem no_submission_while_loading_witness:
  "reachable (dispatch SubmitForm initial_page) \<and>
   isLoading (ui (dispatch SubmitForm initial_page)) \<and>
   predict_calls (dispatch SubmitForm initial_page) = 1 \<and>
   predict_calls (dispatch SubmitForm (dispatch SubmitForm initial_page)) = 1 \<and>
   predict_calls (dispatch (KeyDown ''Enter'') (dispatch SubmitForm initial_page)) = 1 \<and>
   length (in_flight (dispatch (KeyDown ''Enter'') (dispatch SubmitForm initial_page))) \<le> 1"
proof -
  have r: "reachable (dispatch SubmitForm initial_page)"
    by (rule reachable_step [OF reachable_init])
  have s: "isLoading (ui (dispatch SubmitForm initial_page))"
    "predict_calls (dispatch SubmitForm initial_page) = 1"
    unfolding first_submit by simp_all
  show ?thesis
    using r s
      no_submission_while_loading [OF r, of SubmitForm]
      no_submission_while_loading [OF r, of "KeyDown ''Enter''"]
    by simp
qed

end
